theory Spec2Isabelle
  imports Main "HOL-Library.Sublist"
begin

section \<open>The kubelet summary client (pkg/sources/summary/client.go)\<close>

text \<open>
  The client builds one URL per call, issues one GET and interprets the answer.
  Go strings are byte strings, so they are modelled by \<open>string\<close> (a list of
  8-bit characters). The functions of the Go standard library that decide what the
  client computes (\<open>strconv.Itoa\<close>, \<open>net.JoinHostPort\<close>, \<open>URL.String\<close>,
  \<open>URL.Hostname\<close>, \<open>URL.Port\<close>, the verbs \<open>%s\<close>, \<open>%v\<close> and \<open>%q\<close> of
  \<open>fmt\<close>) are written out; the collaborators that reach outside the process
  (the URL parser, the HTTP transport, the JSON decoder) are parameters, collected in
  the record \<open>env\<close>.
\<close>

subsection \<open>Standard library: decimal and hexadecimal digits\<close>

definition byte :: "char \<Rightarrow> nat" where
  "byte c = of_char c"

definition digit :: "nat \<Rightarrow> char" where
  "digit d = ''0123456789'' ! d"

definition lowerhex :: "nat \<Rightarrow> char" where
  "lowerhex d = ''0123456789abcdef'' ! d"

definition upperhex :: "nat \<Rightarrow> char" where
  "upperhex d = ''0123456789ABCDEF'' ! d"

fun decimal :: "nat \<Rightarrow> string" where
  "decimal n = (if n < 10 then [digit n] else decimal (n div 10) @ [digit (n mod 10)])"

declare decimal.simps [simp del]

text \<open>\<open>strconv.Itoa\<close>: the decimal form of a signed integer.\<close>

definition Itoa :: "int \<Rightarrow> string" where
  "Itoa i = (if i < 0 then CHR ''-'' # decimal (nat (- i)) else decimal (nat i))"

subsection \<open>Standard library: \<open>net.JoinHostPort\<close>\<close>

text \<open>
  \<open>JoinHostPort\<close> returns \<open>host:port\<close>, and \<open>[host]:port\<close> when the host
  contains a colon (a literal IPv6 address).
\<close>

definition JoinHostPort :: "string \<Rightarrow> string \<Rightarrow> string" where
  "JoinHostPort host port =
     (if CHR '':'' \<in> set host then ''['' @ host @ '']:'' @ port
      else host @ '':'' @ port)"

subsection \<open>Standard library: \<open>net/url\<close>\<close>

text \<open>
  Of \<open>url.URL\<close> the client sets \<open>Scheme\<close>, \<open>Host\<close> and \<open>Path\<close> and reads
  \<open>Host\<close>; the other fields (\<open>Opaque\<close>, \<open>User\<close>, \<open>RawPath\<close>, \<open>ForceQuery\<close>,
  \<open>RawQuery\<close>, \<open>Fragment\<close>) keep their zero values in every URL it builds.
\<close>

record URL =
  Scheme :: string
  Host :: string
  Path :: string

datatype encoding = encodePath | encodeHost

definition isAlnum :: "char \<Rightarrow> bool" where
  "isAlnum c =
     (let n = byte c in (97 \<le> n \<and> n \<le> 122) \<or> (65 \<le> n \<and> n \<le> 90) \<or> (48 \<le> n \<and> n \<le> 57))"

text \<open>
  \<open>shouldEscape\<close> for the two modes \<open>URL.String\<close> uses here. Unreserved characters
  are never escaped; a host keeps the sub-delimiters, the colon, the brackets,
  \<open><\<close>, \<open>>\<close> and the double quote; a path keeps the reserved characters
  \<open>$ & + , / : ; = @\<close> and escapes \<open>?\<close>; every other byte is escaped.
\<close>

definition shouldEscape :: "char \<Rightarrow> encoding \<Rightarrow> bool" where
  "shouldEscape c mode =
     (if isAlnum c then False
      else if mode = encodeHost \<and> c \<in> set (''!$&()*+,;=:[]<>'' @ [CHR 0x27, CHR 0x22]) then False
      else if c \<in> set ''-_.~'' then False
      else if c \<in> set ''$&+,/:;=?@'' \<and> mode = encodePath then c = CHR ''?''
      else True)"

definition escapeByte :: "encoding \<Rightarrow> char \<Rightarrow> string" where
  "escapeByte mode c =
     (if shouldEscape c mode
      then [CHR ''%'', upperhex (byte c div 16), upperhex (byte c mod 16)]
      else [c])"

definition escape :: "string \<Rightarrow> encoding \<Rightarrow> string" where
  "escape s mode = concat (map (escapeByte mode) s)"

text \<open>\<open>URL.EscapedPath\<close> with \<open>RawPath\<close> empty.\<close>

definition EscapedPath :: "URL \<Rightarrow> string" where
  "EscapedPath u = (if Path u = ''*'' then ''*'' else escape (Path u) encodePath)"

text \<open>
  \<open>URL.String\<close> with \<open>Opaque\<close>, \<open>User\<close>, \<open>RawQuery\<close> and \<open>Fragment\<close> empty:
  the scheme and a colon, \<open>//\<close> and the escaped host, a slash when the path is
  not rooted and a host is present, the escaped path. An empty scheme with an empty
  host leaves the buffer empty, and then \<open>./\<close> protects a first path segment that
  contains a colon.
\<close>

definition URL_String :: "URL \<Rightarrow> string" where
  "URL_String u =
     (let buf0 = (if Scheme u \<noteq> [] then Scheme u @ '':'' else []);
          buf1 = (if Scheme u \<noteq> [] \<or> Host u \<noteq> []
                  then buf0 @ (if Host u \<noteq> [] \<or> Path u \<noteq> [] then ''//'' else [])
                            @ (if Host u \<noteq> [] then escape (Host u) encodeHost else [])
                  else buf0);
          path = EscapedPath u;
          buf2 = (if path \<noteq> [] \<and> hd path \<noteq> CHR ''/'' \<and> Host u \<noteq> []
                  then buf1 @ ''/'' else buf1);
          buf3 = (if buf2 = [] \<and> CHR '':'' \<in> set (takeWhile (\<lambda>c. c \<noteq> CHR ''/'') path)
                  then buf2 @ ''./'' else buf2)
      in buf3 @ path)"

text \<open>
  \<open>URL.Hostname\<close> and \<open>URL.Port\<close>: the host is split at its last colon when
  what follows is a valid optional port (digits only); square brackets around the
  host name are removed.
\<close>

definition validOptionalPort :: "string \<Rightarrow> bool" where
  "validOptionalPort p =
     (case p of [] \<Rightarrow> True
      | c # ds \<Rightarrow> c = CHR '':'' \<and> list_all (\<lambda>b. 48 \<le> byte b \<and> byte b \<le> 57) ds)"

definition splitHostPort :: "string \<Rightarrow> string \<times> string" where
  "splitHostPort hostPort =
     (let after = rev (takeWhile (\<lambda>c. c \<noteq> CHR '':'') (rev hostPort));
          colon = length hostPort - length after - 1;
          (host, port) =
             (if CHR '':'' \<in> set hostPort \<and> validOptionalPort (drop colon hostPort)
              then (take colon hostPort, drop (colon + 1) hostPort)
              else (hostPort, []));
          host' = (if host \<noteq> [] \<and> hd host = CHR ''['' \<and> last host = CHR '']''
                   then butlast (tl host) else host)
      in (host', port))"

definition Hostname :: "URL \<Rightarrow> string" where
  "Hostname u = fst (splitHostPort (Host u))"

definition URL_Port :: "URL \<Rightarrow> string" where
  "URL_Port u = snd (splitHostPort (Host u))"

subsection \<open>Standard library: the verb \<open>%q\<close> (\<open>strconv.Quote\<close>)\<close>

text \<open>
  \<open>utf8.DecodeRuneInString\<close>: the first rune of a string and its width in bytes;
  a byte that starts no well-formed UTF-8 sequence yields \<open>RuneError\<close> with width 1.
\<close>

definition RuneError :: nat where
  "RuneError = 0xFFFD"

definition DecodeRuneInString :: "string \<Rightarrow> nat \<times> nat" where
  "DecodeRuneInString s =
     (case s of [] \<Rightarrow> (RuneError, 0)
      | c0 # t \<Rightarrow>
         (let b0 = byte c0 in
          if b0 < 0x80 then (b0, 1)
          else if b0 < 0xC2 \<or> 0xF4 < b0 then (RuneError, 1)
          else
            (let sz = (if b0 < 0xE0 then 2 else if b0 < 0xF0 then 3 else (4::nat));
                 lo = (if b0 = 0xE0 then 0xA0 else if b0 = 0xF0 then 0x90 else 0x80);
                 hi = (if b0 = 0xED then 0x9F else if b0 = 0xF4 then 0x8F else 0xBF)
             in if length s < sz then (RuneError, 1)
                else
                  (let b1 = byte (t ! 0) in
                   if b1 < lo \<or> hi < b1 then (RuneError, 1)
                   else if sz = 2 then ((b0 mod 32) * 64 + b1 mod 64, 2)
                   else
                     (let b2 = byte (t ! 1) in
                      if b2 < 0x80 \<or> 0xBF < b2 then (RuneError, 1)
                      else if sz = 3
                      then ((b0 mod 16) * 4096 + (b1 mod 64) * 64 + b2 mod 64, 3)
                      else
                        (let b3 = byte (t ! 2) in
                         if b3 < 0x80 \<or> 0xBF < b3 then (RuneError, 1)
                         else ((b0 mod 8) * 262144 + (b1 mod 64) * 4096
                                 + (b2 mod 64) * 64 + b3 mod 64, 4)))))))"

text \<open>
  \<open>strconv.IsPrint\<close>: written out for Latin-1; beyond it the answer comes from
  the library's Unicode tables, the parameter \<open>tbl\<close>.
\<close>

definition IsPrint :: "(nat \<Rightarrow> bool) \<Rightarrow> nat \<Rightarrow> bool" where
  "IsPrint tbl r =
     (if r \<le> 0xFF then (0x20 \<le> r \<and> r \<le> 0x7E) \<or> (0xA1 \<le> r \<and> r \<noteq> 0xAD)
      else tbl r)"

definition hex2 :: "nat \<Rightarrow> string" where
  "hex2 r = [lowerhex (r div 16 mod 16), lowerhex (r mod 16)]"

definition hex4 :: "nat \<Rightarrow> string" where
  "hex4 r = hex2 (r div 256) @ hex2 r"

definition hex8 :: "nat \<Rightarrow> string" where
  "hex8 r = hex4 (r div 65536) @ hex4 r"

text \<open>
  \<open>appendEscapedRune\<close> for the double quote as delimiter: the quote and the
  backslash get a backslash, a printable rune is copied (\<open>bs\<close> are the bytes it
  was decoded from), the control characters with a short form use it, other runes
  are written as \<open>\x\<close>, \<open>\u\<close> or \<open>\U\<close> with lower-case hexadecimal digits.
\<close>

definition appendEscapedRune :: "(nat \<Rightarrow> bool) \<Rightarrow> nat \<Rightarrow> string \<Rightarrow> string" where
  "appendEscapedRune tbl r bs =
     (if r = 0x22 then [CHR 0x5C, CHR 0x22]
      else if r = 0x5C then [CHR 0x5C, CHR 0x5C]
      else if IsPrint tbl r then bs
      else if r = 7 then [CHR 0x5C, CHR ''a'']
      else if r = 8 then [CHR 0x5C, CHR ''b'']
      else if r = 12 then [CHR 0x5C, CHR ''f'']
      else if r = 10 then [CHR 0x5C, CHR ''n'']
      else if r = 13 then [CHR 0x5C, CHR ''r'']
      else if r = 9 then [CHR 0x5C, CHR ''t'']
      else if r = 11 then [CHR 0x5C, CHR ''v'']
      else if r < 0x20 \<or> r = 0x7F then [CHR 0x5C, CHR ''x''] @ hex2 r
      else if r < 0x10000 then [CHR 0x5C, CHR ''u''] @ hex4 r
      else [CHR 0x5C, CHR ''U''] @ hex8 r)"

text \<open>
  One turn of the loop of \<open>appendQuotedWith\<close>: the escaped form of the first
  rune of a non-empty string. The loop then goes on behind that rune.
\<close>

definition quoteRune :: "(nat \<Rightarrow> bool) \<Rightarrow> string \<Rightarrow> string" where
  "quoteRune tbl s =
     (case DecodeRuneInString s of
        (r, width) \<Rightarrow>
          if width = 1 \<and> r = RuneError
          then [CHR 0x5C, CHR ''x''] @ hex2 (byte (hd s))
          else appendEscapedRune tbl r (take width s))"

fun quoteLoop :: "(nat \<Rightarrow> bool) \<Rightarrow> string \<Rightarrow> string" where
  "quoteLoop tbl [] = []"
| "quoteLoop tbl (c # s) =
     quoteRune tbl (c # s) @ quoteLoop tbl (drop (snd (DecodeRuneInString (c # s)) - 1) s)"

definition Quote :: "(nat \<Rightarrow> bool) \<Rightarrow> string \<Rightarrow> string" where
  "Quote tbl s = [CHR 0x22] @ quoteLoop tbl s @ [CHR 0x22]"

text \<open>
  Of \<open>Quote\<close> the theorems below use two facts: printable ASCII text without
  double quote and backslash is copied as it is, and a double quote is written with
  a backslash before it.
\<close>

subsection \<open>The client\<close>

text \<open>
  An \<open>http.Client\<close> is identified with what its \<open>Do\<close> answers to a request: an
  error message, or a response. A response carries the status line, the status
  code and the outcome of reading its body to the end (\<open>ioutil.ReadAll\<close>: an
  error message, or the bytes).
\<close>

record 'ctx request =
  Method :: string
  ReqURL :: "URL option"
  Ctx :: "'ctx option"

record response =
  Status :: string
  StatusCode :: int
  Body :: "string + string"

type_synonym 'ctx client = "'ctx request \<Rightarrow> string + response"

record 'ctx kubeletClient =
  port :: int
  deprecatedNoTLS :: bool
  useAPIProxy :: bool
  apiServerHost :: string
  client :: "'ctx client option"

text \<open>
  The URL that \<open>GetSummary\<close> assembles (its lines up to the \<open>url.URL\<close> literal).
  The verb \<open>%s\<close> inserts the node name as it is.
\<close>

definition requestURL :: "'ctx kubeletClient \<Rightarrow> string \<Rightarrow> URL" where
  "requestURL kc host =
     (let scheme = (if deprecatedNoTLS kc then ''http'' else ''https'');
          (path, host') =
             (if useAPIProxy kc
              then (''api/v1/nodes/'' @ host @ ''/proxy/stats/summary/'', apiServerHost kc)
              else (''/stats/summary/'', JoinHostPort host (Itoa (port kc))))
      in \<lparr>Scheme = scheme, Host = host', Path = path\<rparr>)"

subsection \<open>Errors\<close>

text \<open>
  An \<open>error\<close> value is told apart by its dynamic type: \<open>*ErrNotFound\<close> with its
  endpoint, the error \<open>fmt.Errorf\<close> builds around a formatted message, or an error
  made by \<open>net/http\<close> or \<open>net/url\<close>, of which only the message is kept. A
  \<open>nil\<close> error is \<open>None\<close>.
\<close>

datatype error = ErrNotFound (endpoint: string) | Errorf string | LibraryError string

fun Error :: "(nat \<Rightarrow> bool) \<Rightarrow> error \<Rightarrow> string" where
  "Error tbl (ErrNotFound ep) = Quote tbl ep @ '' not found''"
| "Error tbl (Errorf m) = m"
| "Error tbl (LibraryError m) = m"

fun IsNotFoundError :: "error option \<Rightarrow> bool" where
  "IsNotFoundError (Some (ErrNotFound ep)) = True"
| "IsNotFoundError _ = False"

subsection \<open>The collaborators\<close>

text \<open>
  What the client asks of its surroundings. \<open>url_Parse\<close> is \<open>url.Parse\<close>;
  \<open>http_NewRequest method s\<close> is \<open>http.NewRequest(method, s, nil)\<close> and answers
  with the URL of the new request, which carries the given method and the
  background context; \<open>json_Unmarshal body v\<close> is \<open>json.Unmarshal(body, &v)\<close> and
  answers with the value it leaves behind and its error; \<open>stats_Summary\<close> is the
  zero value \<open>stats.Summary{}\<close>; \<open>unicode_tables\<close> are the tables behind
  \<open>strconv.IsPrint\<close>. Errors of the libraries are given by their messages.
\<close>

record ('ctx, 's) env =
  url_Parse :: "string \<Rightarrow> string + URL"
  http_NewRequest :: "string \<Rightarrow> string \<Rightarrow> string + URL"
  http_DefaultClient :: "'ctx client"
  json_Unmarshal :: "string \<Rightarrow> 's \<Rightarrow> 's \<times> string option"
  stats_Summary :: "'s"
  unicode_tables :: "nat \<Rightarrow> bool"

text \<open>
  The calls a run makes to the outside, in order: the round trip, reading the body,
  the verbose log line (\<open>glog.V(10).Infof\<close>), the JSON decoder, and the deferred
  \<open>Body.Close\<close>.
\<close>

datatype 'ctx event =
    ClientDo "'ctx request"
  | ReadAll
  | GlogV10 string
  | JSONUnmarshal string
  | BodyClose

text \<open>A call returns, or panics (a nil pointer is dereferenced).\<close>

datatype 'a outcome = Returns 'a | Panics

subsection \<open>\<open>makeRequestAndGetValue\<close>\<close>

text \<open>
  The result is the receiver after the call, the calls made, the value behind the
  pointer \<open>value\<close> after the call, and the error returned.
\<close>

definition makeRequestAndGetValue ::
  "('ctx, 's) env \<Rightarrow> 'ctx kubeletClient \<Rightarrow> 'ctx client \<Rightarrow> 'ctx request \<Rightarrow> 's
     \<Rightarrow> ('ctx kubeletClient \<times> 'ctx event list \<times> 's \<times> error option) outcome" where
  "makeRequestAndGetValue env kc cl req val =
     (case cl req of
        Inl err \<Rightarrow> Returns (kc, [ClientDo req], val, Some (LibraryError err))
      | Inr response \<Rightarrow>
         (case Body response of
            Inl err \<Rightarrow>
              Returns (kc, [ClientDo req, ReadAll, BodyClose], val,
                Some (Errorf (''failed to read response body - '' @ err)))
          | Inr body \<Rightarrow>
              if StatusCode response = 404 then
                (case ReqURL req of
                   None \<Rightarrow> Panics
                 | Some u \<Rightarrow>
                     Returns (kc, [ClientDo req, ReadAll, BodyClose], val,
                       Some (ErrNotFound (URL_String u))))
              else if StatusCode response \<noteq> 200 then
                Returns (kc, [ClientDo req, ReadAll, BodyClose], val,
                  Some (Errorf (''request failed - '' @ Quote (unicode_tables env) (Status response)
                                @ '', response: '' @ Quote (unicode_tables env) body)))
              else
                (let kubeletAddr = (case ReqURL req of None \<Rightarrow> ''[unknown]'' | Some u \<Rightarrow> Host u);
                     line = ''Raw response from Kubelet at '' @ kubeletAddr @ '': '' @ body;
                     (val', err) = json_Unmarshal env body val;
                     calls = [ClientDo req, ReadAll, GlogV10 line, JSONUnmarshal body, BodyClose]
                 in case err of
                      Some e \<Rightarrow>
                        Returns (kc, calls, val',
                          Some (Errorf (''failed to parse output. Response: ''
                                        @ Quote (unicode_tables env) body @ ''. Error: '' @ e)))
                    | None \<Rightarrow> Returns (kc, calls, val', None))))"

subsection \<open>\<open>GetSummary\<close>\<close>

text \<open>
  The result is the receiver after the call, the calls made, the returned
  \<open>*stats.Summary\<close> (\<open>None\<close> for \<open>nil\<close>) and the returned error.
\<close>

definition GetSummary ::
  "('ctx, 's) env \<Rightarrow> 'ctx kubeletClient \<Rightarrow> 'ctx \<Rightarrow> string
     \<Rightarrow> ('ctx kubeletClient \<times> 'ctx event list \<times> 's option \<times> error option) outcome" where
  "GetSummary env kc ctx host =
     (let url = requestURL kc host in
      case http_NewRequest env ''GET'' (URL_String url) of
        Inl err \<Rightarrow> Returns (kc, [], None, Some (LibraryError err))
      | Inr u \<Rightarrow>
         (let req = \<lparr>Method = ''GET'', ReqURL = Some u, Ctx = None\<rparr>;
              summary = stats_Summary env;
              cl = (case client kc of None \<Rightarrow> http_DefaultClient env | Some c \<Rightarrow> c)
          in case makeRequestAndGetValue env kc cl (req\<lparr>Ctx := Some ctx\<rparr>) summary of
               Panics \<Rightarrow> Panics
             | Returns (kc', calls, summary', err) \<Rightarrow> Returns (kc', calls, Some summary', err)))"

subsection \<open>\<open>NewKubeletClient\<close>\<close>

text \<open>
  Modelled from the spec: the declaration of \<open>KubeletClientConfig\<close> lies outside
  \<open>client.go\<close>. Its fields are the four that \<open>NewKubeletClient\<close> reads: the
  kubelet port, the host of the REST configuration (the URL of the API server), the
  insecure flag and the proxy flag.
\<close>

record KubeletClientConfig =
  Port :: int
  RESTConfig_Host :: string
  DeprecatedCompletelyInsecure :: bool
  UseAPIServerProxy :: bool

text \<open>The client built around the transport answers as the transport does.\<close>

definition NewKubeletClient ::
  "('ctx, 's) env \<Rightarrow> 'ctx client \<Rightarrow> KubeletClientConfig \<Rightarrow> error + 'ctx kubeletClient" where
  "NewKubeletClient env transport config =
     (let c = transport in
      case url_Parse env (RESTConfig_Host config) of
        Inl err \<Rightarrow> Inl (LibraryError err)
      | Inr apiserverURL \<Rightarrow>
          Inr \<lparr>port = Port config,
               deprecatedNoTLS = DeprecatedCompletelyInsecure config,
               useAPIProxy = UseAPIServerProxy config,
               apiServerHost = JoinHostPort (Hostname apiserverURL) (URL_Port apiserverURL),
               client = Some c\<rparr>)"

subsection \<open>Text that \<open>%q\<close> leaves as it is, and an environment for the examples\<close>

text \<open>
  Printable ASCII text without the double quote and the backslash: the verb \<open>%q\<close>
  copies it unchanged between two double quotes.
\<close>

definition plainASCII :: "string \<Rightarrow> bool" where
  "plainASCII s =
     list_all (\<lambda>c. 0x20 \<le> byte c \<and> byte c \<le> 0x7E \<and> c \<noteq> CHR 0x22 \<and> c \<noteq> CHR 0x5C) s"

text \<open>
  A concrete environment, used to run the client on examples: the parser accepts
  the one string \<open>raw\<close> and splits it into \<open>u\<close>, every request is answered by
  \<open>resp\<close>, the decoder leaves \<open>fst dec\<close> behind and returns \<open>snd dec\<close>. A
  summary is a number here, zero when empty.
\<close>

definition example_env :: "string \<Rightarrow> URL \<Rightarrow> response \<Rightarrow> nat \<times> string option \<Rightarrow> (unit, nat) env" where
  "example_env raw u resp dec =
     \<lparr>url_Parse = (\<lambda>s. if s = raw then Inr u else Inl ''parse error''),
      http_NewRequest = (\<lambda>method s. if s = raw then Inr u else Inl ''parse error''),
      http_DefaultClient = (\<lambda>req. Inr resp),
      json_Unmarshal = (\<lambda>body v. dec),
      stats_Summary = 0,
      unicode_tables = (\<lambda>r. False)\<rparr>"

definition direct_client :: "unit kubeletClient" where
  "direct_client =
     \<lparr>port = 10250, deprecatedNoTLS = False, useAPIProxy = False, apiServerHost = [],
      client = None\<rparr>"

text \<open>
  The environment of the examples for a kubelet addressed directly, as \<open>node-1\<close>
  and under a name with a double quote in it, and the pieces of the proxied example.
\<close>

definition direct_url :: URL where
  "direct_url = \<lparr>Scheme = ''https'', Host = ''node-1:10250'', Path = ''/stats/summary/''\<rparr>"

definition direct_env :: "response \<Rightarrow> nat \<times> string option \<Rightarrow> (unit, nat) env" where
  "direct_env resp dec = example_env ''https://node-1:10250/stats/summary/'' direct_url resp dec"

definition quoted_url :: URL where
  "quoted_url =
     \<lparr>Scheme = ''https'', Host = [CHR ''a'', CHR 0x22, CHR ''b''] @ '':10250'',
      Path = ''/stats/summary/''\<rparr>"

definition quoted_env :: "response \<Rightarrow> nat \<times> string option \<Rightarrow> (unit, nat) env" where
  "quoted_env resp dec =
     example_env (''https://a'' @ [CHR 0x22] @ ''b:10250/stats/summary/'') quoted_url resp dec"

definition proxy_config :: KubeletClientConfig where
  "proxy_config =
     \<lparr>Port = 10250, RESTConfig_Host = ''https://apiserver:6443'',
      DeprecatedCompletelyInsecure = False, UseAPIServerProxy = True\<rparr>"

definition apiserver_url :: URL where
  "apiserver_url = \<lparr>Scheme = ''https'', Host = ''apiserver:6443'', Path = []\<rparr>"

text \<open>
  The proxied example, and the responses of the examples: a decoded summary, a
  missing endpoint, a body that breaks off inside a JSON
  string, a refusal with a JSON body, a body that cannot be read to its end, a
  plain-text failure and a body that is no JSON.
\<close>

definition ok_response :: response where
  "ok_response = \<lparr>Status = ''200 OK'', StatusCode = 200, Body = Inr ''{}''\<rparr>"

definition proxy_env :: "(unit, nat) env" where
  "proxy_env = example_env ''https://apiserver:6443'' apiserver_url ok_response (0, None)"

definition proxy_client :: "unit kubeletClient" where
  "proxy_client = direct_client\<lparr>useAPIProxy := True, apiServerHost := ''apiserver:6443''\<rparr>"

definition not_found_response :: response where
  "not_found_response = \<lparr>Status = ''404 Not Found'', StatusCode = 404, Body = Inr ''gone''\<rparr>"

definition truncated_response :: response where
  "truncated_response =
     \<lparr>Status = ''200 OK'', StatusCode = 200, Body = Inr ([CHR ''{'', CHR 0x22, CHR ''a'', CHR 0x22])\<rparr>"

definition forbidden_response :: response where
  "forbidden_response =
     \<lparr>Status = ''403 Forbidden'', StatusCode = 403,
      Body = Inr ([CHR ''{'', CHR 0x22, CHR ''a'', CHR 0x22] @ '':1}'')\<rparr>"

definition broken_response :: response where
  "broken_response =
     \<lparr>Status = ''500 Internal Server Error'', StatusCode = 500, Body = Inl ''unexpected EOF''\<rparr>"

definition unavailable_response :: response where
  "unavailable_response =
     \<lparr>Status = ''503 Service Unavailable'', StatusCode = 503, Body = Inr ''kubelet down''\<rparr>"

definition garbled_response :: response where
  "garbled_response = \<lparr>Status = ''200 OK'', StatusCode = 200, Body = Inr ''{node:''\<rparr>"

subsection \<open>Valid JSON and a faithful decoder\<close>

text \<open>
  The JSON decoder and the shape of a summary lie outside the repository. Which
  text is valid JSON for which summary is a relation \<open>encodes\<close>; the decoder is
  faithful to it when it turns every such text, decoded into the empty summary, into
  the summary the text encodes, without an error.
\<close>

definition decodes_faithfully :: "('ctx, 's) env \<Rightarrow> (string \<Rightarrow> 's \<Rightarrow> bool) \<Rightarrow> bool" where
  "decodes_faithfully env encodes =
     (\<forall>body s. encodes body s \<longrightarrow> json_Unmarshal env body (stats_Summary env) = (s, None))"

text \<open>
  For the examples a summary is a number and its JSON text is the decimal numeral;
  the decoder reads the numeral back and leaves the value alone when it fails.
\<close>

definition digit_of :: "char \<Rightarrow> nat option" where
  "digit_of c = (if 48 \<le> byte c \<and> byte c \<le> 57 then Some (byte c - 48) else None)"

fun number_parse :: "nat \<Rightarrow> string \<Rightarrow> nat option" where
  "number_parse acc [] = Some acc"
| "number_parse acc (c # cs) =
     (case digit_of c of None \<Rightarrow> None | Some d \<Rightarrow> number_parse (10 * acc + d) cs)"

definition number_decoder :: "string \<Rightarrow> nat \<Rightarrow> nat \<times> string option" where
  "number_decoder body v =
     (if body = [] then (v, Some ''unexpected end of JSON input'')
      else case number_parse 0 body of
             Some n \<Rightarrow> (n, None)
           | None \<Rightarrow> (v, Some ''invalid character''))"

definition number_encodes :: "string \<Rightarrow> nat \<Rightarrow> bool" where
  "number_encodes body s = (body = decimal s)"

definition number_env :: "response \<Rightarrow> (unit, nat) env" where
  "number_env resp = (direct_env resp (0, None))\<lparr>json_Unmarshal := number_decoder\<rparr>"

definition number_response :: response where
  "number_response = \<lparr>Status = ''200 OK'', StatusCode = 200, Body = Inr ''42''\<rparr>"

definition created_number_response :: response where
  "created_number_response = \<lparr>Status = ''201 Created'', StatusCode = 201, Body = Inr ''42''\<rparr>"

subsection \<open>Names for the parts of a call\<close>

text \<open>
  The client \<open>GetSummary\<close> uses (its own, or the default one when it has none),
  the request it sends (the new request, bound to the caller's context), the line
  handed to the verbose log, and the test whether a call is one to the JSON decoder.
\<close>

definition chosen_client :: "('ctx, 's) env \<Rightarrow> 'ctx kubeletClient \<Rightarrow> 'ctx client" where
  "chosen_client env kc = (case client kc of None \<Rightarrow> http_DefaultClient env | Some c \<Rightarrow> c)"

definition sent_request :: "URL \<Rightarrow> 'ctx \<Rightarrow> 'ctx request" where
  "sent_request u ctx = \<lparr>Method = ''GET'', ReqURL = Some u, Ctx = Some ctx\<rparr>"

definition glog_line :: "URL \<Rightarrow> string \<Rightarrow> string" where
  "glog_line u body = ''Raw response from Kubelet at '' @ Host u @ '': '' @ body"

fun is_decode :: "'ctx event \<Rightarrow> bool" where
  "is_decode (JSONUnmarshal b) = True"
| "is_decode _ = False"

section \<open>Properties\<close>

subsection \<open>Evaluation and quoting lemmas\<close>

lemmas url_defs = requestURL_def URL_String_def EscapedPath_def escape_def escapeByte_def
  shouldEscape_def isAlnum_def byte_def JoinHostPort_def Itoa_def upperhex_def

lemmas quote_defs = Quote_def DecodeRuneInString_def byte_def quoteRune_def
  appendEscapedRune_def IsPrint_def RuneError_def hex2_def hex4_def hex8_def lowerhex_def

lemma decimal_10250: "decimal 10250 = ''10250''"
  by (simp add: decimal.simps digit_def)

lemma byte_eq_quote: "(byte c = 0x22) = (c = CHR 0x22)"
proof -
  have "(of_char c = (of_char (CHR 0x22) :: nat)) = (c = CHR 0x22)"
    by (rule of_char_eq_iff)
  then show ?thesis by (simp add: byte_def)
qed

lemma byte_eq_backslash: "(byte c = 0x5C) = (c = CHR 0x5C)"
proof -
  have "(of_char c = (of_char (CHR 0x5C) :: nat)) = (c = CHR 0x5C)"
    by (rule of_char_eq_iff)
  then show ?thesis by (simp add: byte_def)
qed

lemma quoteRune_plain:
  assumes "0x20 \<le> byte c" "byte c \<le> 0x7E" "c \<noteq> CHR 0x22" "c \<noteq> CHR 0x5C"
  shows "DecodeRuneInString (c # s) = (byte c, 1)" and "quoteRune tbl (c # s) = [c]"
proof -
  show d: "DecodeRuneInString (c # s) = (byte c, 1)"
    using assms by (simp add: DecodeRuneInString_def)
  have "byte c \<noteq> 0x22" "byte c \<noteq> 0x5C"
    using assms by (simp_all add: byte_eq_quote byte_eq_backslash)
  then show "quoteRune tbl (c # s) = [c]"
    using assms by (simp add: quoteRune_def d RuneError_def appendEscapedRune_def IsPrint_def)
qed

lemma quoteLoop_plain: "plainASCII s \<Longrightarrow> quoteLoop tbl s = s"
  by (induction s) (simp_all add: plainASCII_def quoteRune_plain)

lemma Quote_plain: "plainASCII s \<Longrightarrow> Quote tbl s = CHR 0x22 # s @ [CHR 0x22]"
  by (simp add: Quote_def quoteLoop_plain)

lemma Quote_plain_sublist: "plainASCII s \<Longrightarrow> sublist s (pre @ Quote tbl s @ post)"
proof -
  assume "plainASCII s"
  then have "pre @ Quote tbl s @ post = (pre @ [CHR 0x22]) @ s @ ([CHR 0x22] @ post)"
    by (simp add: Quote_plain)
  then show ?thesis
    by (simp only: sublist_appendI)
qed

subsection \<open>The branches of a call\<close>

lemma makeRequest_cases:
  "cl req = Inl e \<Longrightarrow>
     makeRequestAndGetValue env kc cl req v = Returns (kc, [ClientDo req], v, Some (LibraryError e))"
  "cl req = Inr resp \<Longrightarrow> Body resp = Inl e \<Longrightarrow>
     makeRequestAndGetValue env kc cl req v =
       Returns (kc, [ClientDo req, ReadAll, BodyClose], v,
         Some (Errorf (''failed to read response body - '' @ e)))"
  "cl req = Inr resp \<Longrightarrow> Body resp = Inr body \<Longrightarrow> StatusCode resp = 404 \<Longrightarrow> ReqURL req = Some u \<Longrightarrow>
     makeRequestAndGetValue env kc cl req v =
       Returns (kc, [ClientDo req, ReadAll, BodyClose], v, Some (ErrNotFound (URL_String u)))"
  "cl req = Inr resp \<Longrightarrow> Body resp = Inr body \<Longrightarrow> StatusCode resp \<noteq> 404 \<Longrightarrow> StatusCode resp \<noteq> 200 \<Longrightarrow>
     makeRequestAndGetValue env kc cl req v =
       Returns (kc, [ClientDo req, ReadAll, BodyClose], v,
         Some (Errorf (''request failed - '' @ Quote (unicode_tables env) (Status resp)
                       @ '', response: '' @ Quote (unicode_tables env) body)))"
  "cl req = Inr resp \<Longrightarrow> Body resp = Inr body \<Longrightarrow> StatusCode resp = 200 \<Longrightarrow> ReqURL req = Some u \<Longrightarrow>
   json_Unmarshal env body v = (v', None) \<Longrightarrow>
     makeRequestAndGetValue env kc cl req v =
       Returns (kc, [ClientDo req, ReadAll,
                     GlogV10 (''Raw response from Kubelet at '' @ Host u @ '': '' @ body),
                     JSONUnmarshal body, BodyClose], v', None)"
  "cl req = Inr resp \<Longrightarrow> Body resp = Inr body \<Longrightarrow> StatusCode resp = 200 \<Longrightarrow> ReqURL req = Some u \<Longrightarrow>
   json_Unmarshal env body v = (v', Some e) \<Longrightarrow>
     makeRequestAndGetValue env kc cl req v =
       Returns (kc, [ClientDo req, ReadAll,
                     GlogV10 (''Raw response from Kubelet at '' @ Host u @ '': '' @ body),
                     JSONUnmarshal body, BodyClose], v',
         Some (Errorf (''failed to parse output. Response: '' @ Quote (unicode_tables env) body
                       @ ''. Error: '' @ e)))"
  by (simp_all add: makeRequestAndGetValue_def)

lemma GetSummary_request:
  "http_NewRequest env ''GET'' (URL_String (requestURL kc node)) = Inr u \<Longrightarrow>
   GetSummary env kc ctx node =
     (case makeRequestAndGetValue env kc (chosen_client env kc) (sent_request u ctx) (stats_Summary env) of
        Panics \<Rightarrow> Panics
      | Returns (kc', calls, summary', err) \<Rightarrow> Returns (kc', calls, Some summary', err))"
  by (simp add: GetSummary_def chosen_client_def sent_request_def)

lemma GetSummary_no_request:
  "http_NewRequest env ''GET'' (URL_String (requestURL kc node)) = Inl e \<Longrightarrow>
   GetSummary env kc ctx node = Returns (kc, [], None, Some (LibraryError e))"
  by (simp add: GetSummary_def)

lemma makeRequest_returns:
  "ReqURL req \<noteq> None \<Longrightarrow> \<exists>calls v' err. makeRequestAndGetValue env kc cl req v = Returns (kc, calls, v', err)"
  by (auto simp add: makeRequestAndGetValue_def Let_def split: sum.splits option.splits prod.splits)

lemma GetSummary_returns:
  "\<exists>calls v err. GetSummary env kc ctx node = Returns (kc, calls, v, err)"
proof (cases "http_NewRequest env ''GET'' (URL_String (requestURL kc node))")
  case (Inl e)
  then show ?thesis by (simp add: GetSummary_no_request)
next
  case (Inr u)
  have "ReqURL (sent_request u ctx) \<noteq> None" by (simp add: sent_request_def)
  from makeRequest_returns [OF this, where env = env and kc = kc
      and cl = "chosen_client env kc" and v = "stats_Summary env"]
  obtain calls v' err where
    "makeRequestAndGetValue env kc (chosen_client env kc) (sent_request u ctx) (stats_Summary env)
       = Returns (kc, calls, v', err)"
    by blast
  with Inr show ?thesis by (simp add: GetSummary_request)
qed

lemma splitHostPort_apiserver: "splitHostPort ''apiserver:6443'' = (''apiserver'', ''6443'')"
  by (simp add: splitHostPort_def validOptionalPort_def byte_def)

lemma direct_env_request:
  "http_NewRequest (direct_env resp dec) ''GET'' (URL_String (requestURL direct_client ''node-1''))
     = Inr direct_url"
  by (simp add: direct_env_def example_env_def direct_client_def url_defs decimal_10250)

lemma direct_env_client:
  "chosen_client (direct_env resp dec) direct_client req = Inr resp"
  by (simp add: chosen_client_def direct_env_def example_env_def direct_client_def)

lemma direct_env_fields:
  "json_Unmarshal (direct_env resp dec) body v = dec"
  "stats_Summary (direct_env resp dec) = 0"
  "unicode_tables (direct_env resp dec) = (\<lambda>r. False)"
  by (simp_all add: direct_env_def example_env_def)

lemma quoted_env_request:
  "http_NewRequest (quoted_env resp dec) ''GET''
     (URL_String (requestURL direct_client [CHR ''a'', CHR 0x22, CHR ''b''])) = Inr quoted_url"
  by (simp add: quoted_env_def example_env_def direct_client_def url_defs decimal_10250)

lemma quoted_env_client:
  "chosen_client (quoted_env resp dec) direct_client req = Inr resp"
  by (simp add: chosen_client_def quoted_env_def example_env_def direct_client_def)

lemma quoted_env_fields:
  "json_Unmarshal (quoted_env resp dec) body v = dec"
  "stats_Summary (quoted_env resp dec) = 0"
  "unicode_tables (quoted_env resp dec) = (\<lambda>r. False)"
  by (simp_all add: quoted_env_def example_env_def)

lemma quoted_url_String:
  "URL_String quoted_url = ''https://a'' @ [CHR 0x22] @ ''b:10250/stats/summary/''"
  by (simp add: quoted_url_def url_defs)

lemma GetSummary_at:
  assumes "http_NewRequest env ''GET'' (URL_String (requestURL kc node)) = Inr u"
    and "makeRequestAndGetValue env kc (chosen_client env kc) (sent_request u ctx) (stats_Summary env)
           = Returns (kc', calls, v, err)"
  shows "GetSummary env kc ctx node = Returns (kc', calls, Some v, err)"
  using assms by (simp add: GetSummary_request)

lemma direct_url_String: "URL_String direct_url = ''https://node-1:10250/stats/summary/''"
  by (simp add: direct_url_def url_defs)

lemma plain_direct_url: "plainASCII ''https://node-1:10250/stats/summary/''"
  by (simp add: plainASCII_def byte_def)

lemma plain_examples:
  "plainASCII ''503 Service Unavailable''" "plainASCII ''kubelet down''"
  by (simp_all add: plainASCII_def byte_def)

lemma plain_garbled: "plainASCII ''{node:''"
  by (simp add: plainASCII_def byte_def)

lemma makeRequest_not_found_iff:
  "makeRequestAndGetValue env kc cl req v = Returns (kc', calls, v', err) \<Longrightarrow>
   IsNotFoundError err = (\<exists>resp body. cl req = Inr resp \<and> Body resp = Inr body \<and> StatusCode resp = 404)"
  by (auto simp add: makeRequestAndGetValue_def Let_def split: sum.splits option.splits prod.splits if_splits)

lemma GetSummary_nil_error:
  assumes "GetSummary env kc ctx node = Returns (kc', calls, v, None)"
  shows "\<exists>u resp body s.
           http_NewRequest env ''GET'' (URL_String (requestURL kc node)) = Inr u
           \<and> chosen_client env kc (sent_request u ctx) = Inr resp
           \<and> Body resp = Inr body \<and> StatusCode resp = 200
           \<and> json_Unmarshal env body (stats_Summary env) = (s, None) \<and> v = Some s"
proof (cases "http_NewRequest env ''GET'' (URL_String (requestURL kc node))")
  case (Inl e)
  with assms show ?thesis by (simp add: GetSummary_no_request)
next
  case (Inr u)
  with assms obtain s where
    m: "makeRequestAndGetValue env kc (chosen_client env kc) (sent_request u ctx) (stats_Summary env)
          = Returns (kc', calls, s, None)" and v: "v = Some s"
    by (auto simp add: GetSummary_request split: outcome.splits)
  from m obtain resp body where
    "chosen_client env kc (sent_request u ctx) = Inr resp" "Body resp = Inr body"
    "StatusCode resp = 200" "json_Unmarshal env body (stats_Summary env) = (s, None)"
    by (auto simp add: makeRequestAndGetValue_def Let_def
          split: sum.splits option.splits prod.splits if_splits)
  with Inr v show ?thesis by blast
qed

subsection \<open>The decoder of the examples\<close>

lemma digit_of_digit: "d < 10 \<Longrightarrow> digit_of (digit d) = Some d"
proof -
  assume "d < 10"
  then have "d = 0 \<or> d = 1 \<or> d = 2 \<or> d = 3 \<or> d = 4 \<or> d = 5 \<or> d = 6 \<or> d = 7 \<or> d = 8 \<or> d = 9"
    by arith
  then show ?thesis
    by (elim disjE) (simp_all add: digit_of_def digit_def byte_def)
qed

lemma number_parse_append:
  "number_parse acc (xs @ ys) =
     (case number_parse acc xs of None \<Rightarrow> None | Some a \<Rightarrow> number_parse a ys)"
  by (induction xs arbitrary: acc) (simp_all split: option.splits)

lemma number_parse_decimal: "number_parse 0 (decimal n) = Some n"
proof (induction n rule: decimal.induct)
  case (1 n)
  show ?case
  proof (cases "n < 10")
    case True
    then show ?thesis
      by (simp add: decimal.simps [of n] digit_of_digit)
  next
    case False
    with 1 have "number_parse 0 (decimal (n div 10)) = Some (n div 10)" by simp
    with False show ?thesis
      by (simp add: decimal.simps [of n] number_parse_append digit_of_digit)
  qed
qed

lemma decimal_not_empty: "decimal n \<noteq> []"
  by (subst decimal.simps) simp

lemma number_env_faithful: "decodes_faithfully (number_env resp) number_encodes"
  by (simp add: decodes_faithfully_def number_env_def number_encodes_def number_decoder_def
        number_parse_decimal decimal_not_empty)

lemma decimal_42: "decimal 42 = ''42''"
  by (simp add: decimal.simps digit_def)

lemma number_env_request:
  "http_NewRequest (number_env resp) ''GET'' (URL_String (requestURL direct_client ''node-1''))
     = Inr direct_url"
  using direct_env_request [of resp "(0, None)"] by (simp add: number_env_def)

lemma number_env_client: "chosen_client (number_env resp) direct_client req = Inr resp"
  by (simp add: number_env_def chosen_client_def direct_env_def example_env_def direct_client_def)

lemma number_env_fields:
  "stats_Summary (number_env resp) = 0"
  "unicode_tables (number_env resp) = (\<lambda>r. False)"
  "json_Unmarshal (number_env resp) = number_decoder"
  by (simp_all add: number_env_def direct_env_fields)

lemma GetSummary_decoded:
  assumes "http_NewRequest env ''GET'' (URL_String (requestURL kc node)) = Inr u"
    and "chosen_client env kc (sent_request u ctx) = Inr resp"
    and "Body resp = Inr body"
    and "StatusCode resp = 200"
    and "json_Unmarshal env body (stats_Summary env) = (s, None)"
  shows "GetSummary env kc ctx node
           = Returns (kc, [ClientDo (sent_request u ctx), ReadAll, GlogV10 (glog_line u body),
                           JSONUnmarshal body, BodyClose], Some s, None)"
proof -
  have "makeRequestAndGetValue env kc (chosen_client env kc) (sent_request u ctx) (stats_Summary env)
          = Returns (kc, [ClientDo (sent_request u ctx), ReadAll, GlogV10 (glog_line u body),
                          JSONUnmarshal body, BodyClose], s, None)"
    unfolding glog_line_def
    using assms(2-4) _ assms(5) by (rule makeRequest_cases(5)) (simp add: sent_request_def)
  with assms(1) show ?thesis by (rule GetSummary_at)
qed

subsection \<open>The claims\<close>

text \<open>
  C1 (amended). Without the proxy, the host of the assembled URL is
  \<open>net.JoinHostPort\<close> of the node name and the decimal port: \<open>name:port\<close> when
  the name has no colon, \<open>[name]:port\<close> when it has one (a literal IPv6 address);
  the path is \<open>/stats/summary/\<close>. With port 10250 and TLS, the node \<open>node-1\<close>
  is asked at \<open>https://node-1:10250/stats/summary/\<close>.
\<close>

theorem direct_request_url:
  "\<not> useAPIProxy kc \<Longrightarrow>
     Host (requestURL kc node) = JoinHostPort node (Itoa (port kc))
     \<and> (CHR '':'' \<notin> set node \<longrightarrow> Host (requestURL kc node) = node @ '':'' @ Itoa (port kc))
     \<and> (CHR '':'' \<in> set node \<longrightarrow> Host (requestURL kc node) = ''['' @ node @ '']:'' @ Itoa (port kc))
     \<and> Path (requestURL kc node) = ''/stats/summary/''
     \<and> (port kc = 10250 \<and> \<not> deprecatedNoTLS kc \<longrightarrow>
          URL_String (requestURL kc ''node-1'') = ''https://node-1:10250/stats/summary/'')"
  by (simp add: url_defs decimal_10250)

text \<open>The theorem at \<open>node-1\<close> and at \<open>::1\<close>.\<close>

theorem direct_request_url_witness:
  "\<not> useAPIProxy direct_client
   \<and> CHR '':'' \<notin> set ''node-1''
   \<and> Host (requestURL direct_client ''node-1'') = ''node-1:10250''
   \<and> Path (requestURL direct_client ''node-1'') = ''/stats/summary/''
   \<and> port direct_client = 10250 \<and> \<not> deprecatedNoTLS direct_client
   \<and> URL_String (requestURL direct_client ''node-1'') = ''https://node-1:10250/stats/summary/''
   \<and> CHR '':'' \<in> set ''::1''
   \<and> Host (requestURL direct_client ''::1'') = ''[::1]:10250''"
  using direct_request_url [of direct_client "''node-1''"]
    direct_request_url [of direct_client "''::1''"]
  by (simp add: direct_client_def Itoa_def decimal_10250 JoinHostPort_def)

text \<open>
  As first stated, C1 has the host equal to \<open>name:port\<close> for every name. The node
  \<open>::1\<close> is asked at \<open>[::1]:10250\<close>.
\<close>

theorem direct_host_counterexample:
  "Host (requestURL direct_client ''::1'') = ''[::1]:10250''
   \<and> Host (requestURL direct_client ''::1'') \<noteq> ''::1'' @ '':'' @ Itoa (port direct_client)"
  by (simp add: direct_client_def requestURL_def JoinHostPort_def Itoa_def decimal_10250)

text \<open>
  C2. Through the proxy, the host of the assembled URL is the \<open>apiServerHost\<close>
  stored at construction and the path is
  \<open>api/v1/nodes/{node}/proxy/stats/summary/\<close>. \<open>NewKubeletClient\<close> stores
  \<open>JoinHostPort\<close> of the host name and the port of the parsed API server URL; for
  \<open>https://apiserver:6443\<close>, which \<open>url.Parse\<close> splits into the scheme and the
  host \<open>apiserver:6443\<close>, the node \<open>node-2\<close> is asked at
  \<open>https://apiserver:6443/api/v1/nodes/node-2/proxy/stats/summary/\<close>.
\<close>

theorem proxy_request_url:
  "(useAPIProxy kc \<longrightarrow>
      Host (requestURL kc node) = apiServerHost kc
      \<and> Path (requestURL kc node) = ''api/v1/nodes/'' @ node @ ''/proxy/stats/summary/'')
   \<and> (url_Parse env (RESTConfig_Host cfg) = Inr u \<longrightarrow>
        (\<exists>kc'. NewKubeletClient env transport cfg = Inr kc'
           \<and> apiServerHost kc' = JoinHostPort (Hostname u) (URL_Port u)
           \<and> useAPIProxy kc' = UseAPIServerProxy cfg
           \<and> deprecatedNoTLS kc' = DeprecatedCompletelyInsecure cfg))
   \<and> (RESTConfig_Host cfg = ''https://apiserver:6443'' \<and> UseAPIServerProxy cfg
        \<and> \<not> DeprecatedCompletelyInsecure cfg
        \<and> url_Parse env ''https://apiserver:6443'' = Inr u \<and> Host u = ''apiserver:6443'' \<longrightarrow>
        (\<exists>kc'. NewKubeletClient env transport cfg = Inr kc'
           \<and> apiServerHost kc' = ''apiserver:6443''
           \<and> URL_String (requestURL kc' ''node-2'')
               = ''https://apiserver:6443/api/v1/nodes/node-2/proxy/stats/summary/''))"
proof (intro conjI impI)
  assume "useAPIProxy kc"
  then show "Host (requestURL kc node) = apiServerHost kc"
    and "Path (requestURL kc node) = ''api/v1/nodes/'' @ node @ ''/proxy/stats/summary/''"
    by (simp_all add: requestURL_def)
next
  assume "url_Parse env (RESTConfig_Host cfg) = Inr u"
  then show "\<exists>kc'. NewKubeletClient env transport cfg = Inr kc'
           \<and> apiServerHost kc' = JoinHostPort (Hostname u) (URL_Port u)
           \<and> useAPIProxy kc' = UseAPIServerProxy cfg
           \<and> deprecatedNoTLS kc' = DeprecatedCompletelyInsecure cfg"
    by (simp add: NewKubeletClient_def)
next
  assume a: "RESTConfig_Host cfg = ''https://apiserver:6443'' \<and> UseAPIServerProxy cfg
        \<and> \<not> DeprecatedCompletelyInsecure cfg
        \<and> url_Parse env ''https://apiserver:6443'' = Inr u \<and> Host u = ''apiserver:6443''"
  define kc' where "kc' = \<lparr>port = Port cfg, deprecatedNoTLS = False, useAPIProxy = True,
      apiServerHost = ''apiserver:6443'', client = Some transport\<rparr>"
  have "JoinHostPort (Hostname u) (URL_Port u) = ''apiserver:6443''"
    using a by (simp add: Hostname_def URL_Port_def splitHostPort_apiserver JoinHostPort_def)
  with a have n: "NewKubeletClient env transport cfg = Inr kc'"
    by (simp add: NewKubeletClient_def kc'_def)
  have "URL_String (requestURL kc' ''node-2'')
          = ''https://apiserver:6443/api/v1/nodes/node-2/proxy/stats/summary/''"
    by (simp add: kc'_def url_defs)
  with n show "\<exists>kc'. NewKubeletClient env transport cfg = Inr kc'
           \<and> apiServerHost kc' = ''apiserver:6443''
           \<and> URL_String (requestURL kc' ''node-2'')
               = ''https://apiserver:6443/api/v1/nodes/node-2/proxy/stats/summary/''"
    by (simp add: kc'_def)
qed

text \<open>
  The theorem at the proxied example.
\<close>

theorem proxy_request_url_witness:
  "useAPIProxy proxy_client
   \<and> Host (requestURL proxy_client ''node-2'') = ''apiserver:6443''
   \<and> Path (requestURL proxy_client ''node-2'') = ''api/v1/nodes/node-2/proxy/stats/summary/''
   \<and> url_Parse proxy_env (RESTConfig_Host proxy_config) = Inr apiserver_url
   \<and> Host apiserver_url = ''apiserver:6443''
   \<and> (\<exists>kc'. NewKubeletClient proxy_env (http_DefaultClient proxy_env) proxy_config = Inr kc'
           \<and> apiServerHost kc' = ''apiserver:6443''
           \<and> URL_String (requestURL kc' ''node-2'')
               = ''https://apiserver:6443/api/v1/nodes/node-2/proxy/stats/summary/'')"
  using proxy_request_url [of proxy_client "''node-2''" proxy_env proxy_config apiserver_url
      "http_DefaultClient proxy_env"]
  by (simp add: proxy_client_def direct_client_def proxy_env_def example_env_def proxy_config_def
        apiserver_url_def)

text \<open>
  C3 (amended). When the request is answered with status 404 and the body is read
  to its end, \<open>GetSummary\<close> returns an \<open>ErrNotFound\<close> that holds the URL string
  of the request, \<open>IsNotFoundError\<close> holds of it, and the JSON decoder is not
  called. The message of the error is the URL string as \<open>%q\<close> writes it, followed
  by \<open>not found\<close>; it contains the URL string itself when that is printable ASCII
  without double quote and backslash.
\<close>

theorem not_found_response_error:
  assumes "http_NewRequest env ''GET'' (URL_String (requestURL kc node)) = Inr u"
    and "chosen_client env kc (sent_request u ctx) = Inr resp"
    and "Body resp = Inr body"
    and "StatusCode resp = 404"
  shows "GetSummary env kc ctx node
           = Returns (kc, [ClientDo (sent_request u ctx), ReadAll, BodyClose],
               Some (stats_Summary env), Some (ErrNotFound (URL_String u)))
         \<and> \<not> list_ex is_decode [ClientDo (sent_request u ctx), ReadAll, BodyClose]
         \<and> IsNotFoundError (Some (ErrNotFound (URL_String u)))
         \<and> Error (unicode_tables env) (ErrNotFound (URL_String u))
             = Quote (unicode_tables env) (URL_String u) @ '' not found''
         \<and> (plainASCII (URL_String u) \<longrightarrow>
              sublist (URL_String u) (Error (unicode_tables env) (ErrNotFound (URL_String u))))"
proof (intro conjI impI)
  have "makeRequestAndGetValue env kc (chosen_client env kc) (sent_request u ctx) (stats_Summary env)
          = Returns (kc, [ClientDo (sent_request u ctx), ReadAll, BodyClose], stats_Summary env,
              Some (ErrNotFound (URL_String u)))"
    using assms(2-4) by (rule makeRequest_cases(3)) (simp add: sent_request_def)
  with assms(1) show "GetSummary env kc ctx node
           = Returns (kc, [ClientDo (sent_request u ctx), ReadAll, BodyClose],
               Some (stats_Summary env), Some (ErrNotFound (URL_String u)))"
    by (rule GetSummary_at)
  show "\<not> list_ex is_decode [ClientDo (sent_request u ctx), ReadAll, BodyClose]"
    by simp
  show "IsNotFoundError (Some (ErrNotFound (URL_String u)))"
    by simp
  show "Error (unicode_tables env) (ErrNotFound (URL_String u))
          = Quote (unicode_tables env) (URL_String u) @ '' not found''"
    by simp
  assume "plainASCII (URL_String u)"
  then have "sublist (URL_String u) ([] @ Quote (unicode_tables env) (URL_String u) @ '' not found'')"
    by (rule Quote_plain_sublist)
  then show "sublist (URL_String u) (Error (unicode_tables env) (ErrNotFound (URL_String u)))"
    by simp
qed

text \<open>
  The theorem at \<open>node-1\<close>, answered with 404.
\<close>

theorem not_found_response_error_witness:
  "http_NewRequest (direct_env not_found_response (0, None)) ''GET''
       (URL_String (requestURL direct_client ''node-1'')) = Inr direct_url
   \<and> chosen_client (direct_env not_found_response (0, None)) direct_client (sent_request direct_url ())
       = Inr not_found_response
   \<and> Body not_found_response = Inr ''gone''
   \<and> StatusCode not_found_response = 404
   \<and> plainASCII (URL_String direct_url)
   \<and> GetSummary (direct_env not_found_response (0, None)) direct_client () ''node-1''
       = Returns (direct_client, [ClientDo (sent_request direct_url ()), ReadAll, BodyClose], Some 0,
           Some (ErrNotFound ''https://node-1:10250/stats/summary/''))
   \<and> sublist ''https://node-1:10250/stats/summary/''
         (Error (\<lambda>r. False) (ErrNotFound ''https://node-1:10250/stats/summary/''))"
  using not_found_response_error [of "direct_env not_found_response (0, None)" direct_client
      "''node-1''" direct_url "()" not_found_response "''gone''"]
  by (simp add: direct_env_request direct_env_client direct_env_fields direct_url_String
        plain_direct_url not_found_response_def)

text \<open>
  As first stated, C3 speaks of every response with status 404 and has the message
  contain the URL string. A 404 whose body breaks off yields the error of the failed
  read, which is no \<open>ErrNotFound\<close>; and for a node name with a double quote the
  message holds the quote escaped, so the URL string is not a part of it.
\<close>

theorem not_found_counterexample:
  "GetSummary (direct_env \<lparr>Status = ''404 Not Found'', StatusCode = 404, Body = Inl ''unexpected EOF''\<rparr> (0, None))
      direct_client () ''node-1''
     = Returns (direct_client, [ClientDo (sent_request direct_url ()), ReadAll, BodyClose], Some 0,
         Some (Errorf ''failed to read response body - unexpected EOF''))
   \<and> \<not> IsNotFoundError (Some (Errorf ''failed to read response body - unexpected EOF''))
   \<and> GetSummary (quoted_env \<lparr>Status = ''404 Not Found'', StatusCode = 404, Body = Inr ''gone''\<rparr> (0, None))
        direct_client () [CHR ''a'', CHR 0x22, CHR ''b'']
     = Returns (direct_client, [ClientDo (sent_request quoted_url ()), ReadAll, BodyClose], Some 0,
         Some (ErrNotFound (URL_String quoted_url)))
   \<and> Error (unicode_tables (quoted_env \<lparr>Status = ''404 Not Found'', StatusCode = 404, Body = Inr ''gone''\<rparr> (0, None)))
         (ErrNotFound (URL_String quoted_url))
       = [CHR 0x22] @ ''https://a'' @ [CHR 0x5C, CHR 0x22] @ ''b:10250/stats/summary/'' @ [CHR 0x22] @ '' not found''
   \<and> \<not> sublist (URL_String quoted_url)
         ([CHR 0x22] @ ''https://a'' @ [CHR 0x5C, CHR 0x22] @ ''b:10250/stats/summary/'' @ [CHR 0x22] @ '' not found'')"
proof (intro conjI)
  let ?r1 = "\<lparr>Status = ''404 Not Found'', StatusCode = 404, Body = Inl ''unexpected EOF''\<rparr>"
  let ?r2 = "\<lparr>Status = ''404 Not Found'', StatusCode = 404, Body = Inr ''gone''\<rparr>"
  have "makeRequestAndGetValue (direct_env ?r1 (0, None)) direct_client
          (chosen_client (direct_env ?r1 (0, None)) direct_client) (sent_request direct_url ())
          (stats_Summary (direct_env ?r1 (0, None)))
        = Returns (direct_client, [ClientDo (sent_request direct_url ()), ReadAll, BodyClose], 0,
            Some (Errorf (''failed to read response body - '' @ ''unexpected EOF'')))"
    by (simp add: makeRequest_cases(2) [where resp = ?r1] direct_env_client direct_env_fields)
  then show "GetSummary (direct_env ?r1 (0, None)) direct_client () ''node-1''
     = Returns (direct_client, [ClientDo (sent_request direct_url ()), ReadAll, BodyClose], Some 0,
         Some (Errorf ''failed to read response body - unexpected EOF''))"
    using GetSummary_at [OF direct_env_request] by simp
  show "\<not> IsNotFoundError (Some (Errorf ''failed to read response body - unexpected EOF''))"
    by simp
  have "makeRequestAndGetValue (quoted_env ?r2 (0, None)) direct_client
          (chosen_client (quoted_env ?r2 (0, None)) direct_client) (sent_request quoted_url ())
          (stats_Summary (quoted_env ?r2 (0, None)))
        = Returns (direct_client, [ClientDo (sent_request quoted_url ()), ReadAll, BodyClose], 0,
            Some (ErrNotFound (URL_String quoted_url)))"
    by (simp add: makeRequest_cases(3) [where resp = ?r2 and body = "''gone''"] quoted_env_client
          sent_request_def quoted_env_fields)
  then show "GetSummary (quoted_env ?r2 (0, None)) direct_client () [CHR ''a'', CHR 0x22, CHR ''b'']
     = Returns (direct_client, [ClientDo (sent_request quoted_url ()), ReadAll, BodyClose], Some 0,
         Some (ErrNotFound (URL_String quoted_url)))"
    using GetSummary_at [OF quoted_env_request] by simp
  show "Error (unicode_tables (quoted_env ?r2 (0, None))) (ErrNotFound (URL_String quoted_url))
       = [CHR 0x22] @ ''https://a'' @ [CHR 0x5C, CHR 0x22] @ ''b:10250/stats/summary/'' @ [CHR 0x22] @ '' not found''"
    by (simp add: quoted_url_String quoted_env_fields quote_defs)
  show "\<not> sublist (URL_String quoted_url)
         ([CHR 0x22] @ ''https://a'' @ [CHR 0x5C, CHR 0x22] @ ''b:10250/stats/summary/'' @ [CHR 0x22] @ '' not found'')"
    by (simp add: quoted_url_String sublist_code)
qed

text \<open>
  C4 (amended). When the request is answered with status 200 and the body is valid
  JSON for a summary, \<open>GetSummary\<close> returns no error and the summary that the
  body encodes, for every decoder that is faithful to the encoding.
\<close>

theorem ok_response_decoded:
  assumes "http_NewRequest env ''GET'' (URL_String (requestURL kc node)) = Inr u"
    and "chosen_client env kc (sent_request u ctx) = Inr resp"
    and "Body resp = Inr body"
    and "StatusCode resp = 200"
    and "decodes_faithfully env encodes"
    and "encodes body s"
  shows "GetSummary env kc ctx node
           = Returns (kc, [ClientDo (sent_request u ctx), ReadAll, GlogV10 (glog_line u body),
                           JSONUnmarshal body, BodyClose], Some s, None)"
proof -
  from assms(5,6) have "json_Unmarshal env body (stats_Summary env) = (s, None)"
    by (simp add: decodes_faithfully_def)
  with assms(1-4) show ?thesis by (rule GetSummary_decoded)
qed

text \<open>
  The theorem at \<open>node-1\<close>, answered with 200 and the JSON text of 42.
\<close>

theorem ok_response_decoded_witness:
  "http_NewRequest (number_env number_response) ''GET''
       (URL_String (requestURL direct_client ''node-1'')) = Inr direct_url
   \<and> chosen_client (number_env number_response) direct_client (sent_request direct_url ())
       = Inr number_response
   \<and> Body number_response = Inr ''42''
   \<and> StatusCode number_response = 200
   \<and> decodes_faithfully (number_env number_response) number_encodes
   \<and> number_encodes ''42'' 42
   \<and> GetSummary (number_env number_response) direct_client () ''node-1''
       = Returns (direct_client,
           [ClientDo (sent_request direct_url ()), ReadAll,
            GlogV10 ''Raw response from Kubelet at node-1:10250: 42'', JSONUnmarshal ''42'', BodyClose],
           Some 42, None)"
  using ok_response_decoded [of "number_env number_response" direct_client "''node-1''"
      direct_url "()" number_response "''42''" number_encodes 42]
  by (simp add: number_env_request number_env_client number_env_faithful number_response_def
        number_encodes_def decimal_42 glog_line_def direct_url_def)

text \<open>
  As first stated, C4 speaks of every 2xx status. A 201 whose body is valid JSON
  for the summary 42 yields the error of a failed request and not that summary.
\<close>

theorem created_response_counterexample:
  "StatusCode created_number_response = 201
   \<and> Body created_number_response = Inr ''42''
   \<and> decodes_faithfully (number_env created_number_response) number_encodes
   \<and> number_encodes ''42'' 42
   \<and> GetSummary (number_env created_number_response) direct_client () ''node-1''
       = Returns (direct_client, [ClientDo (sent_request direct_url ()), ReadAll, BodyClose], Some 0,
           Some (Errorf (''request failed - '' @ [CHR 0x22] @ ''201 Created'' @ [CHR 0x22]
                         @ '', response: '' @ [CHR 0x22] @ ''42'' @ [CHR 0x22])))"
proof -
  have "makeRequestAndGetValue (number_env created_number_response) direct_client
          (chosen_client (number_env created_number_response) direct_client)
          (sent_request direct_url ()) (stats_Summary (number_env created_number_response))
        = Returns (direct_client, [ClientDo (sent_request direct_url ()), ReadAll, BodyClose], 0,
            Some (Errorf (''request failed - '' @ [CHR 0x22] @ ''201 Created'' @ [CHR 0x22]
                         @ '', response: '' @ [CHR 0x22] @ ''42'' @ [CHR 0x22])))"
    by (simp add: makeRequest_cases(4) [where resp = created_number_response and body = "''42''"]
          number_env_client number_env_fields created_number_response_def quote_defs)
  then show ?thesis
    using GetSummary_at [OF number_env_request]
    by (simp add: created_number_response_def number_env_faithful number_encodes_def decimal_42)
qed

text \<open>
  C5 (amended). \<open>GetSummary\<close> returns a nil error only together with a decoded
  summary: the status was 200, the body was read, the decoder accepted it and the
  value is the decoder's. When the request cannot be built, the error comes with a
  nil summary. On a 200 whose body the decoder rejects, the error is a decode error
  whose message holds the body as \<open>%q\<close> writes it (the body itself when it is
  printable ASCII without double quote and backslash) and the decoder's message.
\<close>

theorem value_or_error:
  "(GetSummary env kc ctx node = Returns (kc', calls, v, None) \<longrightarrow>
      (\<exists>u resp body s.
          http_NewRequest env ''GET'' (URL_String (requestURL kc node)) = Inr u
          \<and> chosen_client env kc (sent_request u ctx) = Inr resp
          \<and> Body resp = Inr body \<and> StatusCode resp = 200
          \<and> json_Unmarshal env body (stats_Summary env) = (s, None) \<and> v = Some s))
   \<and> (http_NewRequest env ''GET'' (URL_String (requestURL kc node)) = Inl e \<longrightarrow>
        GetSummary env kc ctx node = Returns (kc, [], None, Some (LibraryError e)))
   \<and> (http_NewRequest env ''GET'' (URL_String (requestURL kc node)) = Inr u
        \<and> chosen_client env kc (sent_request u ctx) = Inr resp
        \<and> Body resp = Inr body \<and> StatusCode resp = 200
        \<and> json_Unmarshal env body (stats_Summary env) = (s, Some e) \<longrightarrow>
        (\<exists>w. GetSummary env kc ctx node
               = Returns (kc, [ClientDo (sent_request u ctx), ReadAll, GlogV10 (glog_line u body),
                               JSONUnmarshal body, BodyClose], w,
                   Some (Errorf (''failed to parse output. Response: ''
                                 @ Quote (unicode_tables env) body @ ''. Error: '' @ e))))
        \<and> (plainASCII body \<longrightarrow>
             sublist body
               (Error (unicode_tables env)
                  (Errorf (''failed to parse output. Response: ''
                           @ Quote (unicode_tables env) body @ ''. Error: '' @ e)))))"
proof (intro conjI impI)
  assume "GetSummary env kc ctx node = Returns (kc', calls, v, None)"
  then show "\<exists>u resp body s.
          http_NewRequest env ''GET'' (URL_String (requestURL kc node)) = Inr u
          \<and> chosen_client env kc (sent_request u ctx) = Inr resp
          \<and> Body resp = Inr body \<and> StatusCode resp = 200
          \<and> json_Unmarshal env body (stats_Summary env) = (s, None) \<and> v = Some s"
    by (rule GetSummary_nil_error)
next
  assume "http_NewRequest env ''GET'' (URL_String (requestURL kc node)) = Inl e"
  then show "GetSummary env kc ctx node = Returns (kc, [], None, Some (LibraryError e))"
    by (rule GetSummary_no_request)
next
  assume a: "http_NewRequest env ''GET'' (URL_String (requestURL kc node)) = Inr u
        \<and> chosen_client env kc (sent_request u ctx) = Inr resp
        \<and> Body resp = Inr body \<and> StatusCode resp = 200
        \<and> json_Unmarshal env body (stats_Summary env) = (s, Some e)"
  then have "makeRequestAndGetValue env kc (chosen_client env kc) (sent_request u ctx) (stats_Summary env)
          = Returns (kc, [ClientDo (sent_request u ctx), ReadAll, GlogV10 (glog_line u body),
                          JSONUnmarshal body, BodyClose], s,
              Some (Errorf (''failed to parse output. Response: ''
                            @ Quote (unicode_tables env) body @ ''. Error: '' @ e)))"
    by (simp add: makeRequest_cases(6) [where u = u] sent_request_def glog_line_def)
  with a have "GetSummary env kc ctx node
               = Returns (kc, [ClientDo (sent_request u ctx), ReadAll, GlogV10 (glog_line u body),
                               JSONUnmarshal body, BodyClose], Some s,
                   Some (Errorf (''failed to parse output. Response: ''
                                 @ Quote (unicode_tables env) body @ ''. Error: '' @ e)))"
    by (simp add: GetSummary_at)
  then show "\<exists>w. GetSummary env kc ctx node
               = Returns (kc, [ClientDo (sent_request u ctx), ReadAll, GlogV10 (glog_line u body),
                               JSONUnmarshal body, BodyClose], w,
                   Some (Errorf (''failed to parse output. Response: ''
                                 @ Quote (unicode_tables env) body @ ''. Error: '' @ e)))"
    by blast
next
  assume "plainASCII body"
  then have "sublist body
     (''failed to parse output. Response: '' @ Quote (unicode_tables env) body @ (''. Error: '' @ e))"
    by (rule Quote_plain_sublist)
  then show "sublist body
               (Error (unicode_tables env)
                  (Errorf (''failed to parse output. Response: ''
                           @ Quote (unicode_tables env) body @ ''. Error: '' @ e)))"
    by simp
qed

text \<open>
  The theorem at three calls: a decoded summary, a request that cannot be built,
  a body that is no JSON.
\<close>

theorem value_or_error_witness:
  "GetSummary (direct_env ok_response (7, None)) direct_client () ''node-1''
     = Returns (direct_client,
         [ClientDo (sent_request direct_url ()), ReadAll,
          GlogV10 ''Raw response from Kubelet at node-1:10250: {}'', JSONUnmarshal ''{}'', BodyClose],
         Some 7, None)
   \<and> (\<exists>u resp body s.
          http_NewRequest (direct_env ok_response (7, None)) ''GET''
             (URL_String (requestURL direct_client ''node-1'')) = Inr u
          \<and> chosen_client (direct_env ok_response (7, None)) direct_client (sent_request u ()) = Inr resp
          \<and> Body resp = Inr body \<and> StatusCode resp = 200
          \<and> json_Unmarshal (direct_env ok_response (7, None)) body
               (stats_Summary (direct_env ok_response (7, None))) = (s, None)
          \<and> Some (7::nat) = Some s)
   \<and> http_NewRequest (direct_env ok_response (7, None)) ''GET''
        (URL_String (requestURL direct_client ''node-2'')) = Inl ''parse error''
   \<and> GetSummary (direct_env ok_response (7, None)) direct_client () ''node-2''
       = Returns (direct_client, [], None, Some (LibraryError ''parse error''))
   \<and> (\<exists>w. GetSummary (direct_env garbled_response (0, Some ''invalid character'')) direct_client ()
              ''node-1''
            = Returns (direct_client,
                [ClientDo (sent_request direct_url ()), ReadAll,
                 GlogV10 (glog_line direct_url ''{node:''), JSONUnmarshal ''{node:'', BodyClose], w,
                Some (Errorf (''failed to parse output. Response: '' @ [CHR 0x22] @ ''{node:''
                              @ [CHR 0x22] @ ''. Error: invalid character''))))
   \<and> sublist ''{node:''
        (''failed to parse output. Response: '' @ [CHR 0x22] @ ''{node:''
           @ [CHR 0x22] @ ''. Error: invalid character'')"
proof -
  have ok: "GetSummary (direct_env ok_response (7, None)) direct_client () ''node-1''
     = Returns (direct_client,
         [ClientDo (sent_request direct_url ()), ReadAll,
          GlogV10 ''Raw response from Kubelet at node-1:10250: {}'', JSONUnmarshal ''{}'', BodyClose],
         Some 7, None)"
    using GetSummary_at [OF direct_env_request,
        where resp1 = ok_response and dec1 = "(7, None)" and ctx = "()"]
      makeRequest_cases(5) [where resp = ok_response and body = "''{}''" and u = direct_url
        and env = "direct_env ok_response (7, None)" and kc = direct_client and v = 0 and v' = 7
        and req = "sent_request direct_url ()"
        and cl = "chosen_client (direct_env ok_response (7, None)) direct_client"]
    by (simp add: direct_env_client direct_env_fields ok_response_def sent_request_def direct_url_def)
  have bad: "http_NewRequest (direct_env ok_response (7, None)) ''GET''
        (URL_String (requestURL direct_client ''node-2'')) = Inl ''parse error''"
    by (simp add: direct_env_def example_env_def direct_client_def url_defs decimal_10250)
  show ?thesis
    using ok bad
      value_or_error [of "direct_env ok_response (7, None)" direct_client "()" "''node-1''"
        direct_client "[ClientDo (sent_request direct_url ()), ReadAll,
          GlogV10 ''Raw response from Kubelet at node-1:10250: {}'', JSONUnmarshal ''{}'', BodyClose]"
        "Some 7"]
      value_or_error [of "direct_env ok_response (7, None)" direct_client "()" "''node-2''"
        _ _ _ "''parse error''"]
      value_or_error [of "direct_env garbled_response (0, Some ''invalid character'')" direct_client
        "()" "''node-1''" _ _ _ "''invalid character''" direct_url garbled_response "''{node:''" 0]
    by (simp add: direct_env_request direct_env_client direct_env_fields garbled_response_def
          plain_garbled Quote_plain)
qed

text \<open>
  As first stated, C5 has an error come with no summary, and the decode error
  contain the raw body. After a 404 the call returns the error and a summary
  pointer; after a 200 with a body that breaks off inside a JSON string it returns
  the decode error and a summary pointer, and the message holds the body with its
  quotes escaped.
\<close>

theorem value_or_error_counterexample:
  "GetSummary (direct_env not_found_response (0, None)) direct_client () ''node-1''
     = Returns (direct_client, [ClientDo (sent_request direct_url ()), ReadAll, BodyClose], Some 0,
         Some (ErrNotFound ''https://node-1:10250/stats/summary/''))
   \<and> Body truncated_response = Inr [CHR ''{'', CHR 0x22, CHR ''a'', CHR 0x22]
   \<and> GetSummary (direct_env truncated_response (0, Some ''unexpected end of JSON input''))
        direct_client () ''node-1''
     = Returns (direct_client,
         [ClientDo (sent_request direct_url ()), ReadAll,
          GlogV10 (glog_line direct_url [CHR ''{'', CHR 0x22, CHR ''a'', CHR 0x22]),
          JSONUnmarshal [CHR ''{'', CHR 0x22, CHR ''a'', CHR 0x22], BodyClose],
         Some 0,
         Some (Errorf (''failed to parse output. Response: ''
                       @ [CHR 0x22, CHR ''{'', CHR 0x5C, CHR 0x22, CHR ''a'', CHR 0x5C, CHR 0x22, CHR 0x22]
                       @ ''. Error: unexpected end of JSON input'')))
   \<and> \<not> sublist [CHR ''{'', CHR 0x22, CHR ''a'', CHR 0x22]
         (Error (\<lambda>r. False)
            (Errorf (''failed to parse output. Response: ''
                     @ [CHR 0x22, CHR ''{'', CHR 0x5C, CHR 0x22, CHR ''a'', CHR 0x5C, CHR 0x22, CHR 0x22]
                     @ ''. Error: unexpected end of JSON input'')))"
proof (intro conjI)
  have "makeRequestAndGetValue (direct_env not_found_response (0, None)) direct_client
          (chosen_client (direct_env not_found_response (0, None)) direct_client)
          (sent_request direct_url ()) (stats_Summary (direct_env not_found_response (0, None)))
        = Returns (direct_client, [ClientDo (sent_request direct_url ()), ReadAll, BodyClose], 0,
            Some (ErrNotFound ''https://node-1:10250/stats/summary/''))"
    by (simp add: makeRequest_cases(3) [where resp = not_found_response and body = "''gone''"
            and u = direct_url]
          direct_env_client direct_env_fields not_found_response_def sent_request_def
          direct_url_String)
  then show "GetSummary (direct_env not_found_response (0, None)) direct_client () ''node-1''
     = Returns (direct_client, [ClientDo (sent_request direct_url ()), ReadAll, BodyClose], Some 0,
         Some (ErrNotFound ''https://node-1:10250/stats/summary/''))"
    using GetSummary_at [OF direct_env_request] by simp
  show "Body truncated_response = Inr [CHR ''{'', CHR 0x22, CHR ''a'', CHR 0x22]"
    by (simp add: truncated_response_def)
  have "makeRequestAndGetValue (direct_env truncated_response (0, Some ''unexpected end of JSON input''))
          direct_client
          (chosen_client (direct_env truncated_response (0, Some ''unexpected end of JSON input''))
             direct_client)
          (sent_request direct_url ())
          (stats_Summary (direct_env truncated_response (0, Some ''unexpected end of JSON input'')))
        = Returns (direct_client,
         [ClientDo (sent_request direct_url ()), ReadAll,
          GlogV10 (glog_line direct_url [CHR ''{'', CHR 0x22, CHR ''a'', CHR 0x22]),
          JSONUnmarshal [CHR ''{'', CHR 0x22, CHR ''a'', CHR 0x22], BodyClose],
         0,
         Some (Errorf (''failed to parse output. Response: ''
                       @ [CHR 0x22, CHR ''{'', CHR 0x5C, CHR 0x22, CHR ''a'', CHR 0x5C, CHR 0x22, CHR 0x22]
                       @ ''. Error: unexpected end of JSON input'')))"
    by (simp add: makeRequest_cases(6) [where resp = truncated_response
            and body = "[CHR ''{'', CHR 0x22, CHR ''a'', CHR 0x22]" and u = direct_url and v' = 0
            and e = "''unexpected end of JSON input''"]
          direct_env_client direct_env_fields truncated_response_def sent_request_def
          glog_line_def quote_defs)
  then show "GetSummary (direct_env truncated_response (0, Some ''unexpected end of JSON input''))
        direct_client () ''node-1''
     = Returns (direct_client,
         [ClientDo (sent_request direct_url ()), ReadAll,
          GlogV10 (glog_line direct_url [CHR ''{'', CHR 0x22, CHR ''a'', CHR 0x22]),
          JSONUnmarshal [CHR ''{'', CHR 0x22, CHR ''a'', CHR 0x22], BodyClose],
         Some 0,
         Some (Errorf (''failed to parse output. Response: ''
                       @ [CHR 0x22, CHR ''{'', CHR 0x5C, CHR 0x22, CHR ''a'', CHR 0x5C, CHR 0x22, CHR 0x22]
                       @ ''. Error: unexpected end of JSON input'')))"
    using GetSummary_at [OF direct_env_request] by simp
  show "\<not> sublist [CHR ''{'', CHR 0x22, CHR ''a'', CHR 0x22]
         (Error (\<lambda>r. False)
            (Errorf (''failed to parse output. Response: ''
                     @ [CHR 0x22, CHR ''{'', CHR 0x5C, CHR 0x22, CHR ''a'', CHR 0x5C, CHR 0x22, CHR 0x22]
                     @ ''. Error: unexpected end of JSON input'')))"
    by (simp add: sublist_code)
qed

text \<open>
  C6 (amended). When the request is answered with a status that is neither 2xx nor
  404 and the body is read to its end, \<open>GetSummary\<close> returns an error that
  \<open>IsNotFoundError\<close> rejects; its message is \<open>request failed - \<close>, the status
  line as \<open>%q\<close> writes it, \<open>, response: \<close> and the body as \<open>%q\<close> writes it.
  The status line and the body are part of the message whenever they are printable
  ASCII without double quote and backslash.
\<close>

theorem failed_response_error:
  assumes "http_NewRequest env ''GET'' (URL_String (requestURL kc node)) = Inr u"
    and "chosen_client env kc (sent_request u ctx) = Inr resp"
    and "Body resp = Inr body"
    and "\<not> (200 \<le> StatusCode resp \<and> StatusCode resp \<le> 299)"
    and "StatusCode resp \<noteq> 404"
  shows "GetSummary env kc ctx node
           = Returns (kc, [ClientDo (sent_request u ctx), ReadAll, BodyClose], Some (stats_Summary env),
               Some (Errorf (''request failed - '' @ Quote (unicode_tables env) (Status resp)
                             @ '', response: '' @ Quote (unicode_tables env) body)))
         \<and> \<not> IsNotFoundError
               (Some (Errorf (''request failed - '' @ Quote (unicode_tables env) (Status resp)
                              @ '', response: '' @ Quote (unicode_tables env) body)))
         \<and> (plainASCII (Status resp) \<longrightarrow>
              sublist (Status resp)
                (Error (unicode_tables env)
                   (Errorf (''request failed - '' @ Quote (unicode_tables env) (Status resp)
                            @ '', response: '' @ Quote (unicode_tables env) body))))
         \<and> (plainASCII body \<longrightarrow>
              sublist body
                (Error (unicode_tables env)
                   (Errorf (''request failed - '' @ Quote (unicode_tables env) (Status resp)
                            @ '', response: '' @ Quote (unicode_tables env) body))))"
proof (intro conjI impI)
  from assms(4) have "StatusCode resp \<noteq> 200" by auto
  with assms(2,3,5)
  have "makeRequestAndGetValue env kc (chosen_client env kc) (sent_request u ctx) (stats_Summary env)
          = Returns (kc, [ClientDo (sent_request u ctx), ReadAll, BodyClose], stats_Summary env,
               Some (Errorf (''request failed - '' @ Quote (unicode_tables env) (Status resp)
                             @ '', response: '' @ Quote (unicode_tables env) body)))"
    by (simp add: makeRequest_cases(4))
  with assms(1) show "GetSummary env kc ctx node
           = Returns (kc, [ClientDo (sent_request u ctx), ReadAll, BodyClose], Some (stats_Summary env),
               Some (Errorf (''request failed - '' @ Quote (unicode_tables env) (Status resp)
                             @ '', response: '' @ Quote (unicode_tables env) body)))"
    by (rule GetSummary_at)
  show "\<not> IsNotFoundError
               (Some (Errorf (''request failed - '' @ Quote (unicode_tables env) (Status resp)
                              @ '', response: '' @ Quote (unicode_tables env) body)))"
    by simp
next
  assume "plainASCII (Status resp)"
  then have "sublist (Status resp)
     (''request failed - '' @ Quote (unicode_tables env) (Status resp)
        @ ('', response: '' @ Quote (unicode_tables env) body))"
    by (rule Quote_plain_sublist)
  then show "sublist (Status resp)
                (Error (unicode_tables env)
                   (Errorf (''request failed - '' @ Quote (unicode_tables env) (Status resp)
                            @ '', response: '' @ Quote (unicode_tables env) body)))"
    by simp
next
  assume "plainASCII body"
  then have "sublist body
     ((''request failed - '' @ Quote (unicode_tables env) (Status resp) @ '', response: '')
        @ Quote (unicode_tables env) body @ [])"
    by (rule Quote_plain_sublist)
  then show "sublist body
                (Error (unicode_tables env)
                   (Errorf (''request failed - '' @ Quote (unicode_tables env) (Status resp)
                            @ '', response: '' @ Quote (unicode_tables env) body)))"
    by simp
qed

text \<open>
  The theorem at \<open>node-1\<close>, answered with 503 and a plain-text body.
\<close>

theorem failed_response_error_witness:
  "http_NewRequest (direct_env unavailable_response (0, None)) ''GET''
       (URL_String (requestURL direct_client ''node-1'')) = Inr direct_url
   \<and> chosen_client (direct_env unavailable_response (0, None)) direct_client (sent_request direct_url ())
       = Inr unavailable_response
   \<and> Body unavailable_response = Inr ''kubelet down''
   \<and> \<not> (200 \<le> StatusCode unavailable_response \<and> StatusCode unavailable_response \<le> 299)
   \<and> StatusCode unavailable_response \<noteq> 404
   \<and> plainASCII (Status unavailable_response)
   \<and> plainASCII ''kubelet down''
   \<and> GetSummary (direct_env unavailable_response (0, None)) direct_client () ''node-1''
       = Returns (direct_client, [ClientDo (sent_request direct_url ()), ReadAll, BodyClose], Some 0,
           Some (Errorf (''request failed - '' @ [CHR 0x22] @ ''503 Service Unavailable'' @ [CHR 0x22]
                         @ '', response: '' @ [CHR 0x22] @ ''kubelet down'' @ [CHR 0x22])))
   \<and> sublist ''503 Service Unavailable''
         (''request failed - '' @ [CHR 0x22] @ ''503 Service Unavailable'' @ [CHR 0x22]
            @ '', response: '' @ [CHR 0x22] @ ''kubelet down'' @ [CHR 0x22])
   \<and> sublist ''kubelet down''
         (''request failed - '' @ [CHR 0x22] @ ''503 Service Unavailable'' @ [CHR 0x22]
            @ '', response: '' @ [CHR 0x22] @ ''kubelet down'' @ [CHR 0x22])"
  using failed_response_error [of "direct_env unavailable_response (0, None)" direct_client
      "''node-1''" direct_url "()" unavailable_response "''kubelet down''"]
  by (simp add: direct_env_request direct_env_client direct_env_fields unavailable_response_def
        plain_examples Quote_plain)

text \<open>
  As first stated, C6 has the message contain the status line and the raw body for
  every such response. A 500 whose body breaks off yields the error of the failed
  read, without the status line; a 403 with a JSON body yields a message that holds
  the body with its quotes escaped.
\<close>

theorem failed_response_counterexample:
  "GetSummary (direct_env broken_response (0, None)) direct_client () ''node-1''
     = Returns (direct_client, [ClientDo (sent_request direct_url ()), ReadAll, BodyClose], Some 0,
         Some (Errorf ''failed to read response body - unexpected EOF''))
   \<and> Status broken_response = ''500 Internal Server Error''
   \<and> \<not> sublist ''500 Internal Server Error''
         (Error (\<lambda>r. False) (Errorf ''failed to read response body - unexpected EOF''))
   \<and> GetSummary (direct_env forbidden_response (0, None)) direct_client () ''node-1''
       = Returns (direct_client, [ClientDo (sent_request direct_url ()), ReadAll, BodyClose], Some 0,
           Some (Errorf (''request failed - '' @ [CHR 0x22] @ ''403 Forbidden'' @ [CHR 0x22]
                         @ '', response: '' @ [CHR 0x22, CHR ''{'', CHR 0x5C, CHR 0x22, CHR ''a'', CHR 0x5C, CHR 0x22]
                         @ '':1}'' @ [CHR 0x22])))
   \<and> Body forbidden_response = Inr ([CHR ''{'', CHR 0x22, CHR ''a'', CHR 0x22] @ '':1}'')
   \<and> \<not> sublist ([CHR ''{'', CHR 0x22, CHR ''a'', CHR 0x22] @ '':1}'')
         (Error (\<lambda>r. False)
            (Errorf (''request failed - '' @ [CHR 0x22] @ ''403 Forbidden'' @ [CHR 0x22]
                         @ '', response: '' @ [CHR 0x22, CHR ''{'', CHR 0x5C, CHR 0x22, CHR ''a'', CHR 0x5C, CHR 0x22]
                         @ '':1}'' @ [CHR 0x22])))"
proof (intro conjI)
  have "makeRequestAndGetValue (direct_env broken_response (0, None)) direct_client
          (chosen_client (direct_env broken_response (0, None)) direct_client)
          (sent_request direct_url ()) (stats_Summary (direct_env broken_response (0, None)))
        = Returns (direct_client, [ClientDo (sent_request direct_url ()), ReadAll, BodyClose], 0,
            Some (Errorf ''failed to read response body - unexpected EOF''))"
    by (simp add: makeRequest_cases(2) [where resp = broken_response and e = "''unexpected EOF''"]
          direct_env_client direct_env_fields broken_response_def)
  then show "GetSummary (direct_env broken_response (0, None)) direct_client () ''node-1''
     = Returns (direct_client, [ClientDo (sent_request direct_url ()), ReadAll, BodyClose], Some 0,
         Some (Errorf ''failed to read response body - unexpected EOF''))"
    using GetSummary_at [OF direct_env_request] by simp
  show "Status broken_response = ''500 Internal Server Error''"
    by (simp add: broken_response_def)
  show "\<not> sublist ''500 Internal Server Error''
         (Error (\<lambda>r. False) (Errorf ''failed to read response body - unexpected EOF''))"
    by (simp add: sublist_code)
  have "makeRequestAndGetValue (direct_env forbidden_response (0, None)) direct_client
          (chosen_client (direct_env forbidden_response (0, None)) direct_client)
          (sent_request direct_url ()) (stats_Summary (direct_env forbidden_response (0, None)))
        = Returns (direct_client, [ClientDo (sent_request direct_url ()), ReadAll, BodyClose], 0,
           Some (Errorf (''request failed - '' @ [CHR 0x22] @ ''403 Forbidden'' @ [CHR 0x22]
                         @ '', response: '' @ [CHR 0x22, CHR ''{'', CHR 0x5C, CHR 0x22, CHR ''a'', CHR 0x5C, CHR 0x22]
                         @ '':1}'' @ [CHR 0x22])))"
    by (simp add: makeRequest_cases(4) [where resp = forbidden_response
            and body = "[CHR ''{'', CHR 0x22, CHR ''a'', CHR 0x22] @ '':1}''"]
          direct_env_client direct_env_fields forbidden_response_def quote_defs)
  then show "GetSummary (direct_env forbidden_response (0, None)) direct_client () ''node-1''
       = Returns (direct_client, [ClientDo (sent_request direct_url ()), ReadAll, BodyClose], Some 0,
           Some (Errorf (''request failed - '' @ [CHR 0x22] @ ''403 Forbidden'' @ [CHR 0x22]
                         @ '', response: '' @ [CHR 0x22, CHR ''{'', CHR 0x5C, CHR 0x22, CHR ''a'', CHR 0x5C, CHR 0x22]
                         @ '':1}'' @ [CHR 0x22])))"
    using GetSummary_at [OF direct_env_request] by simp
  show "Body forbidden_response = Inr ([CHR ''{'', CHR 0x22, CHR ''a'', CHR 0x22] @ '':1}'')"
    by (simp add: forbidden_response_def)
  show "\<not> sublist ([CHR ''{'', CHR 0x22, CHR ''a'', CHR 0x22] @ '':1}'')
         (Error (\<lambda>r. False)
            (Errorf (''request failed - '' @ [CHR 0x22] @ ''403 Forbidden'' @ [CHR 0x22]
                         @ '', response: '' @ [CHR 0x22, CHR ''{'', CHR 0x5C, CHR 0x22, CHR ''a'', CHR 0x5C, CHR 0x22]
                         @ '':1}'' @ [CHR 0x22])))"
    by (simp add: sublist_code)
qed

text \<open>
  C7. The scheme of the assembled URL is \<open>http\<close> exactly when \<open>deprecatedNoTLS\<close>
  is set and \<open>https\<close> otherwise, whatever the proxy flag.
\<close>

theorem scheme_by_tls_flag:
  "Scheme (requestURL kc node) = (if deprecatedNoTLS kc then ''http'' else ''https'')
   \<and> ((Scheme (requestURL kc node) = ''http'') = deprecatedNoTLS kc)
   \<and> Scheme (requestURL (kc\<lparr>useAPIProxy := b\<rparr>) node) = Scheme (requestURL kc node)"
  by (simp add: requestURL_def split: prod.splits)

text \<open>
  C8. The port is read only without the proxy and \<open>apiServerHost\<close> only with
  it: with the proxy, changing the port leaves the assembled URL as it is, for every
  node; without the proxy, changing \<open>apiServerHost\<close> does.
\<close>

theorem unused_field_is_not_read:
  "(useAPIProxy kc \<longrightarrow> requestURL (kc\<lparr>port := p\<rparr>) node = requestURL kc node)
   \<and> (\<not> useAPIProxy kc \<longrightarrow> requestURL (kc\<lparr>apiServerHost := a\<rparr>) node = requestURL kc node)"
  by (simp add: requestURL_def)

text \<open>
  The theorem at the proxied and at the direct example.
\<close>

theorem unused_field_is_not_read_witness:
  "useAPIProxy proxy_client
   \<and> requestURL (proxy_client\<lparr>port := 4194\<rparr>) ''node-2'' = requestURL proxy_client ''node-2''
   \<and> \<not> useAPIProxy direct_client
   \<and> requestURL (direct_client\<lparr>apiServerHost := ''apiserver:6443''\<rparr>) ''node-1''
       = requestURL direct_client ''node-1''"
  using unused_field_is_not_read [of proxy_client 4194 "''node-2''" "''apiserver:6443''"]
    unused_field_is_not_read [of direct_client 4194 "''node-1''" "''apiserver:6443''"]
  by (simp add: proxy_client_def direct_client_def)

text \<open>
  C9. Every call of \<open>GetSummary\<close> returns, and leaves each field of its receiver
  (\<open>port\<close>, \<open>deprecatedNoTLS\<close>, \<open>useAPIProxy\<close>, \<open>apiServerHost\<close>,
  \<open>client\<close>) as it was.
\<close>

theorem GetSummary_leaves_receiver:
  "\<exists>kc' calls v err.
      GetSummary env kc ctx node = Returns (kc', calls, v, err)
      \<and> port kc' = port kc \<and> deprecatedNoTLS kc' = deprecatedNoTLS kc
      \<and> useAPIProxy kc' = useAPIProxy kc \<and> apiServerHost kc' = apiServerHost kc
      \<and> client kc' = client kc \<and> kc' = kc"
  using GetSummary_returns [of env kc ctx node] by auto

text \<open>
  C10. \<open>IsNotFoundError\<close> holds of the errors of type \<open>*ErrNotFound\<close> and of
  nothing else: not of the nil error, not of an error built by \<open>fmt.Errorf\<close>, not
  of an error of the libraries. The error \<open>makeRequestAndGetValue\<close> returns is
  classified as not found exactly when the response was read and its status is 404;
  so the errors for other statuses, for a failed read and for a failed decoding are
  not.
\<close>

theorem IsNotFoundError_exact:
  "IsNotFoundError e = (\<exists>ep. e = Some (ErrNotFound ep))
   \<and> \<not> IsNotFoundError None
   \<and> \<not> IsNotFoundError (Some (Errorf m))
   \<and> \<not> IsNotFoundError (Some (LibraryError m))
   \<and> (makeRequestAndGetValue env kc cl req v = Returns (kc', calls, v', err) \<longrightarrow>
        IsNotFoundError err
          = (\<exists>resp body. cl req = Inr resp \<and> Body resp = Inr body \<and> StatusCode resp = 404))"
proof (intro conjI impI)
  show "IsNotFoundError e = (\<exists>ep. e = Some (ErrNotFound ep))"
    by (cases e rule: IsNotFoundError.cases) simp_all
qed (simp_all add: makeRequest_not_found_iff)

text \<open>
  The theorem at \<open>node-1\<close>, answered with 404.
\<close>

theorem IsNotFoundError_exact_witness:
  "makeRequestAndGetValue (direct_env not_found_response (0, None)) direct_client
      (chosen_client (direct_env not_found_response (0, None)) direct_client)
      (sent_request direct_url ()) 0
     = Returns (direct_client, [ClientDo (sent_request direct_url ()), ReadAll, BodyClose], 0,
         Some (ErrNotFound ''https://node-1:10250/stats/summary/''))
   \<and> IsNotFoundError (Some (ErrNotFound ''https://node-1:10250/stats/summary/''))
   \<and> StatusCode not_found_response = 404"
  using IsNotFoundError_exact [of "Some (ErrNotFound ''https://node-1:10250/stats/summary/'')" "[]"
      "direct_env not_found_response (0, None)" direct_client
      "chosen_client (direct_env not_found_response (0, None)) direct_client"
      "sent_request direct_url ()" 0 direct_client
      "[ClientDo (sent_request direct_url ()), ReadAll, BodyClose]" 0
      "Some (ErrNotFound ''https://node-1:10250/stats/summary/'')"]
    makeRequest_cases(3) [of "chosen_client (direct_env not_found_response (0, None)) direct_client"
      "sent_request direct_url ()" not_found_response "''gone''" direct_url
      "direct_env not_found_response (0, None)" direct_client 0]
  by (simp add: direct_env_client not_found_response_def sent_request_def direct_url_String)

end
